theory Spec2Isabelle
  imports Main "HOL-Library.Word"
begin

unbundle bit_operations_syntax

section \<open>Python values used by the decoder\<close>

text \<open>
  The module \<^verbatim>\<open>stockholm/asn1/ber_decoder.py\<close> is Python 2: a buffer is a \<^verbatim>\<open>str\<close>,
  a sequence of 8-bit characters, and \<^verbatim>\<open>ord\<close> reads one of them as an integer in
  0..255. Integers are unbounded, so they are \<^typ>\<open>int\<close>. The exceptions the decoder can
  meet are values of \<open>error\<close>; a function that can raise returns \<open>error + 'a\<close>.
\<close>

type_synonym byte_string = "8 word list"

datatype error = IndexError | TypeError | ValueError | AttributeError

text \<open>\<^verbatim>\<open>xs[i]\<close>: a negative index counts from the end, an index out of range raises.\<close>

definition getitem :: "'a list \<Rightarrow> int \<Rightarrow> error + 'a" where
  "getitem xs i =
     (if 0 \<le> i \<and> i < int (length xs) then Inr (xs ! nat i)
      else if i < 0 \<and> - int (length xs) \<le> i then Inr (xs ! nat (int (length xs) + i))
      else Inl IndexError)"

text \<open>\<^verbatim>\<open>xs[i:j]\<close>: both bounds are clipped to the sequence, and nothing raises.\<close>

definition slice :: "'a list \<Rightarrow> int \<Rightarrow> int \<Rightarrow> 'a list" where
  "slice xs i j =
     (let n = int (length xs);
          lo = (if i < 0 then max (i + n) 0 else min i n);
          hi = (if j < 0 then max (j + n) 0 else min j n)
      in take (nat (hi - lo)) (drop (nat lo) xs))"

text \<open>\<^verbatim>\<open>ord(s)\<close> wants a string of length one.\<close>

definition ord :: "byte_string \<Rightarrow> error + int" where
  "ord s = (case s of [c] \<Rightarrow> Inr (uint c) | _ \<Rightarrow> Inl TypeError)"

text \<open>\<^verbatim>\<open>x << s\<close> raises ValueError on a negative shift count.\<close>

definition lshift :: "int \<Rightarrow> int \<Rightarrow> error + int" where
  "lshift x s = (if s < 0 then Inl ValueError else Inr (push_bit (nat s) x))"

text \<open>
  \<^verbatim>\<open>s.encode('hex')\<close>, the standard library's codec: two lower-case hexadecimal digits
  for every character.
\<close>

definition hex_digit :: "nat \<Rightarrow> char" where
  "hex_digit d = ''0123456789abcdef'' ! d"

definition hex_encode :: "byte_string \<Rightarrow> string" where
  "hex_encode s = concat (map (\<lambda>c. [hex_digit (unat c div 16), hex_digit (unat c mod 16)]) s)"

section \<open>Identifier octets\<close>

definition tag_type_decode :: "byte_string \<Rightarrow> error + int" where
  "tag_type_decode byte_string =
     (case getitem byte_string 0 of
        Inl e \<Rightarrow> Inl e
      | Inr c \<Rightarrow>
          (case ord [c] of
             Inl e \<Rightarrow> Inl e
           | Inr first_octet \<Rightarrow> Inr (if first_octet AND 32 = 32 then 1 else 0)))"

text \<open>
  The \<^verbatim>\<open>while True\<close> loop of \<^verbatim>\<open>lvq_decode\<close>. The first argument is what is left of
  the string from position \<^verbatim>\<open>size\<close> on, so \<^verbatim>\<open>byte_string[size:size+1]\<close> is its first
  character, or the empty string, on which \<^verbatim>\<open>ord\<close> raises.
\<close>

fun lvq_while :: "byte_string \<Rightarrow> int list \<Rightarrow> int \<Rightarrow> error + (int list \<times> int)" where
  "lvq_while [] values size' = Inl TypeError"
| "lvq_while (c # rest) values size' =
     (case ord [c] of
        Inl e \<Rightarrow> Inl e
      | Inr b \<Rightarrow>
          (if b AND 0x80 = 0 then Inr (values @ [b AND 0x7f], size' + 1)
           else lvq_while rest (values @ [b AND 0x7f]) (size' + 1)))"

text \<open>
  The \<^verbatim>\<open>for i in values\<close> loop. Its statements \<^verbatim>\<open>i << shift\<close> and \<^verbatim>\<open>shift - 7\<close> are
  expressions whose values are dropped: \<open>i\<close> and \<open>shift\<close> stay as they are, and only
  \<^verbatim>\<open>result |= i\<close> has an effect.
\<close>

fun lvq_for :: "int list \<Rightarrow> int \<Rightarrow> int \<Rightarrow> error + int" where
  "lvq_for [] shift result = Inr result"
| "lvq_for (i # values) shift result =
     (case lshift i shift of
        Inl e \<Rightarrow> Inl e
      | Inr _ \<Rightarrow> lvq_for values shift (result OR i))"

definition lvq_decode :: "byte_string \<Rightarrow> error + (int \<times> int)" where
  "lvq_decode byte_string =
     (case lvq_while byte_string [] 0 of
        Inl e \<Rightarrow> Inl e
      | Inr (values, size') \<Rightarrow>
          (case lvq_for values (7 * (int (length values) - 1)) 0 of
             Inl e \<Rightarrow> Inl e
           | Inr result \<Rightarrow> Inr (result, size')))"

definition tag_identifier_decode :: "byte_string \<Rightarrow> error + (int \<times> int)" where
  "tag_identifier_decode byte_string =
     (case getitem byte_string 0 of
        Inl e \<Rightarrow> Inl e
      | Inr c \<Rightarrow>
          (case ord [c] of
             Inl e \<Rightarrow> Inl e
           | Inr first_octet \<Rightarrow>
               (if first_octet AND 31 = 31 then
                  (case lvq_decode (slice byte_string 1 (int (length byte_string))) of
                     Inl e \<Rightarrow> Inl e
                   | Inr (number, identifier_octets) \<Rightarrow> Inr (number, identifier_octets + 1))
                else Inr (first_octet - (first_octet AND 224), 0 + 1))))"

section \<open>Length octets\<close>

text \<open>
  The loop of \<^verbatim>\<open>long_format_length_decode\<close>, over the characters
  \<^verbatim>\<open>byte_string[i]\<close> for \<open>i\<close> in \<^verbatim>\<open>range(number_of_octets)\<close>.
\<close>

fun lfld_for :: "byte_string \<Rightarrow> int \<Rightarrow> int \<Rightarrow> error + int" where
  "lfld_for [] shift length' = Inr length'"
| "lfld_for (c # rest) shift length' =
     (case ord [c] of
        Inl e \<Rightarrow> Inl e
      | Inr b \<Rightarrow>
          (case lshift b shift of
             Inl e \<Rightarrow> Inl e
           | Inr v \<Rightarrow> lfld_for rest (shift - 8) (length' OR v)))"

definition long_format_length_decode :: "byte_string \<Rightarrow> error + int" where
  "long_format_length_decode byte_string =
     lfld_for byte_string (8 * (int (length byte_string) - 1)) 0"

section \<open>Header\<close>

record Header =
  type :: int
  number :: int
  identifier_octets :: int
  octets :: int
  length_octets :: int
  data_length :: int
  total_octets :: int
  extra_data_length :: int

definition length_decode :: "Header \<Rightarrow> byte_string \<Rightarrow> error + Header" where
  "length_decode self byte_string =
     (case getitem byte_string (identifier_octets self) of
        Inl e \<Rightarrow> Inl e
      | Inr c \<Rightarrow>
          (case ord [c] of
             Inl e \<Rightarrow> Inl e
           | Inr first_octet \<Rightarrow>
               (case
                  (if first_octet = 128 then
                     (let s1 = self\<lparr>length_octets := 1\<rparr>;
                          s2 = s1\<lparr>octets := identifier_octets s1 + length_octets s1\<rparr>
                      in Inr (s2\<lparr>extra_data_length := int (length byte_string) - octets s2\<rparr>))
                   else if first_octet AND 128 = 128 then
                     (let number_of_extra_length_octets = first_octet - 128;
                          s1 = self\<lparr>length_octets := 1 + number_of_extra_length_octets\<rparr>;
                          s2 = s1\<lparr>octets := identifier_octets s1 + length_octets s1\<rparr>;
                          index = identifier_octets s2 + 1
                      in (case long_format_length_decode
                                 (slice byte_string index (index + number_of_extra_length_octets)) of
                            Inl e \<Rightarrow> Inl e
                          | Inr l \<Rightarrow> Inr (s2\<lparr>data_length := l, extra_data_length := 0\<rparr>)))
                   else
                     (let s1 = self\<lparr>length_octets := 1\<rparr>;
                          s2 = s1\<lparr>octets := identifier_octets s1 + length_octets s1\<rparr>;
                          s3 = s2\<lparr>data_length := first_octet\<rparr>
                      in Inr (s3\<lparr>extra_data_length :=
                                   int (length byte_string) - octets s3 - data_length s3\<rparr>)))
                of
                  Inl e \<Rightarrow> Inl e
                | Inr s \<Rightarrow> Inr (s\<lparr>total_octets := octets s + data_length s\<rparr>))))"

definition Header_init :: "byte_string \<Rightarrow> error + Header" where
  "Header_init byte_string =
     (case tag_type_decode byte_string of
        Inl e \<Rightarrow> Inl e
      | Inr t \<Rightarrow>
          (case tag_identifier_decode byte_string of
             Inl e \<Rightarrow> Inl e
           | Inr (n, i) \<Rightarrow>
               length_decode
                 \<lparr>type = t, number = n, identifier_octets = i, octets = 0, length_octets = 0,
                  data_length = 0, total_octets = 0, extra_data_length = 0\<rparr>
                 byte_string))"

section \<open>Tag\<close>

text \<open>
  The attribute \<^verbatim>\<open>value\<close> of a tag is \<^verbatim>\<open>None\<close>, the raw characters of a constructed
  tag, or the text \<^verbatim>\<open>decode_value\<close> made of a primitive one.
\<close>

datatype py_value = NoneValue | Octets byte_string | Text string

datatype Tag =
  Tag (header: "Header option") (tag_value: py_value) (nested_tags: "Tag list")
      (load_value: bool) (name: "string option")

definition type_name :: "string list" where
  "type_name = [''primitive'', ''constructed'']"

definition decode_value :: "byte_string \<Rightarrow> string" where
  "decode_value byte_string = hex_encode byte_string"

definition decode_constructed :: "Tag \<Rightarrow> byte_string \<Rightarrow> error + Tag" where
  "decode_constructed self byte_string =
     (case header self of
        None \<Rightarrow> Inl AttributeError
      | Some h \<Rightarrow>
          Inr (Tag (header self) (Octets (slice byte_string (octets h) (total_octets h)))
                 (nested_tags self) (load_value self) (name self)))"

definition decode_primitive :: "Tag \<Rightarrow> byte_string \<Rightarrow> error + Tag" where
  "decode_primitive self byte_string =
     (case header self of
        None \<Rightarrow> Inl AttributeError
      | Some h \<Rightarrow>
          Inr (Tag (header self)
                 (Text (decode_value (slice byte_string (octets h) (total_octets h))))
                 (nested_tags self) (load_value self) (name self)))"

definition decode :: "Tag \<Rightarrow> byte_string \<Rightarrow> error + Tag" where
  "decode self byte_string =
     (case
        (case header self of
           None \<Rightarrow>
             (case Header_init byte_string of
                Inl e \<Rightarrow> Inl e
              | Inr h \<Rightarrow>
                  Inr (Tag (Some h) (tag_value self) (nested_tags self) (load_value self)
                         (name self)))
         | Some _ \<Rightarrow> Inr self)
      of
        Inl e \<Rightarrow> Inl e
      | Inr self1 \<Rightarrow>
          (if load_value self1 then
             (case header self1 of
                None \<Rightarrow> Inl AttributeError
              | Some h \<Rightarrow>
                  (if type h = 0 then decode_primitive self1 byte_string
                   else if type h = 1 then decode_constructed self1 byte_string
                   else Inr self1))
           else Inr self1))"

text \<open>
  The constructor. \<^verbatim>\<open>if byte_string:\<close> is false for \<^verbatim>\<open>None\<close> and for the empty
  string; the tag then keeps the header it was given.
\<close>

definition Tag_init ::
  "Header option \<Rightarrow> byte_string option \<Rightarrow> bool \<Rightarrow> string option \<Rightarrow> error + Tag" where
  "Tag_init header' byte_string load_value' name' =
     (let self = Tag header' NoneValue [] load_value' name'
      in (case byte_string of
            None \<Rightarrow> Inr self
          | Some s \<Rightarrow> (if s \<noteq> [] then decode self s else Inr self)))"

definition get_type :: "Tag \<Rightarrow> error + string" where
  "get_type self =
     (case header self of
        None \<Rightarrow> Inl AttributeError
      | Some h \<Rightarrow>
          (case getitem type_name (type h) of
             Inl e \<Rightarrow> Inl e
           | Inr n \<Rightarrow> Inr (if data_length h = 0 then n @ ''-Indefinite'' else n)))"

definition add_nested_tag :: "Tag \<Rightarrow> Tag \<Rightarrow> error + Tag" where
  "add_nested_tag self tag =
     (case header self of
        None \<Rightarrow> Inl AttributeError
      | Some h \<Rightarrow>
          (if type h = 1 then
             Inr (Tag (header self) (tag_value self) (nested_tags self @ [tag])
                    (load_value self) (name self))
           else Inr self))"

section \<open>Unfolding the decoder on a concrete buffer\<close>

lemmas header_defs =
  Header_init_def tag_type_decode_def tag_identifier_decode_def length_decode_def
  lvq_decode_def long_format_length_decode_def getitem_def slice_def ord_def lshift_def

lemmas tag_defs =
  Tag_init_def decode_def decode_primitive_def decode_constructed_def decode_value_def
  hex_encode_def hex_digit_def

section \<open>Basic facts\<close>

lemma ord_single: "ord [c] = Inr (uint c)"
  by (simp add: ord_def)

lemma getitem_nonneg:
  "0 \<le> i \<Longrightarrow> getitem xs i = (if i < int (length xs) then Inr (xs ! nat i) else Inl IndexError)"
  by (simp add: getitem_def)

lemma getitem_Cons_0: "getitem (x # xs) 0 = Inr x"
  by (simp add: getitem_def)

lemma getitem_Nil: "getitem [] i = Inl IndexError"
  by (simp add: getitem_def)

lemma slice_nonneg:
  "0 \<le> i \<Longrightarrow> 0 \<le> j \<Longrightarrow> slice xs i j = take (nat j - nat i) (drop (nat i) xs)"
  by (auto simp: slice_def Let_def min_def nat_diff_distrib')

lemma slice_tail: "slice xs 1 (int (length xs)) = drop 1 xs"
  by (simp add: slice_nonneg)

lemma and_exp_eq_exp_iff: "(x::int) AND 2 ^ n = 2 ^ n \<longleftrightarrow> bit x n"
  by (auto simp: bit_eq_iff [where ?'a = int] bit_simps)

lemma and_32_iff: "uint (c :: 8 word) AND 32 = 32 \<longleftrightarrow> bit c 5"
  using and_exp_eq_exp_iff [of "uint c" 5] by (simp add: bit_uint_iff)

lemma and_128_iff: "uint (c :: 8 word) AND 128 = 128 \<longleftrightarrow> bit c 7"
  using and_exp_eq_exp_iff [of "uint c" 7] by (simp add: bit_uint_iff)

lemma tag_type_decode_Cons:
  "tag_type_decode (c # rest) = Inr (if bit c 5 then 1 else 0)"
  by (simp add: tag_type_decode_def getitem_Cons_0 ord_single and_32_iff)

lemma tag_type_decode_Nil: "tag_type_decode [] = Inl IndexError"
  by (simp add: tag_type_decode_def getitem_Nil)

lemma length_decode_frame:
  "length_decode self b = Inr h \<Longrightarrow>
     type h = type self \<and> number h = number self \<and>
     identifier_octets h = identifier_octets self"
  by (auto simp: length_decode_def Let_def split: sum.splits if_splits)

lemma length_decode_sums:
  "length_decode self b = Inr h \<Longrightarrow>
     total_octets h = octets h + data_length h \<and>
     octets h = identifier_octets h + length_octets h"
  by (auto simp: length_decode_def Let_def split: sum.splits if_splits)

lemma Header_init_type:
  "Header_init (c # rest) = Inr h \<Longrightarrow> type h = (if bit c 5 then 1 else 0)"
  by (auto simp: Header_init_def tag_type_decode_Cons dest!: length_decode_frame
      split: sum.splits prod.splits)

lemma Header_init_nonempty: "Header_init b = Inr h \<Longrightarrow> b \<noteq> []"
  by (auto simp: Header_init_def tag_type_decode_Nil)

lemma Header_init_type_cases: "Header_init b = Inr h \<Longrightarrow> type h = 0 \<or> type h = 1"
  by (cases b) (auto dest: Header_init_nonempty Header_init_type split: if_splits)

lemma Tag_init_decoded:
  "Tag_init None (Some b) lv nm = Inr t \<Longrightarrow> b \<noteq> [] \<Longrightarrow>
     \<exists>h. Header_init b = Inr h \<and> header t = Some h \<and> nested_tags t = [] \<and>
         load_value t = lv \<and> name t = nm"
  by (auto simp: Tag_init_def decode_def decode_primitive_def decode_constructed_def Let_def
      split: sum.splits if_splits option.splits)

lemma Tag_init_nested_tags: "Tag_init hd' bs lv nm = Inr t \<Longrightarrow> nested_tags t = []"
  by (auto simp: Tag_init_def decode_def decode_primitive_def decode_constructed_def Let_def
      split: sum.splits if_splits option.splits)

section \<open>The worked example of a primitive tag\<close>

text \<open>
  Claim C6. Decoding the buffer \<^verbatim>\<open>[0x02, 0x01, 0x05]\<close> gives a primitive tag (type 0,
  no nested tags) with tag number 2 and a data length of 1; the value characters the header
  delimits are \<^verbatim>\<open>[0x05]\<close>, and the default \<^verbatim>\<open>decode_value\<close> renders them as the text
  \<^verbatim>\<open>05\<close>, two hexadecimal digits for each character.
\<close>

theorem C6_integer_example:
  "Tag_init None (Some [0x02, 0x01, 0x05]) True None =
     Inr (Tag (Some \<lparr>type = 0, number = 2, identifier_octets = 1, octets = 2,
                      length_octets = 1, data_length = 1, total_octets = 3,
                      extra_data_length = 0\<rparr>)
            (Text ''05'') [] True None)
   \<and> slice [0x02, 0x01, 0x05 :: 8 word] 2 3 = [0x05]
   \<and> decode_value [0x05] = ''05''"
  by (simp add: header_defs tag_defs)

section \<open>Long-form tag numbers\<close>

text \<open>
  Claim C2. The claim asks that a long-form tag number decodes to the number that was
  encoded, for 127, 128, 16383 and 16384 among others. The loop of \<^verbatim>\<open>lvq_decode\<close> drops
  the shifted value, so it returns the bitwise OR of the seven-bit groups: the base-128
  encodings of 128 (\<^verbatim>\<open>81 00\<close>), 16383 (\<^verbatim>\<open>FF 7F\<close>) and 16384 (\<^verbatim>\<open>81 80 00\<close>) decode
  to 1, 127 and 1. Only the one-octet encoding of 127 comes back as it was.
\<close>

theorem C2_long_form_tag_number_lost:
  "tag_identifier_decode [0x1F, 0x7F, 0x00] = Inr (127, 2)
   \<and> tag_identifier_decode [0x1F, 0x81, 0x00, 0x00] = Inr (1, 3)
   \<and> tag_identifier_decode [0x1F, 0xFF, 0x7F, 0x00] = Inr (127, 3)
   \<and> tag_identifier_decode [0x1F, 0x81, 0x80, 0x00, 0x00] = Inr (1, 4)"
  by (simp add: header_defs)

section \<open>Primitive or constructed\<close>

text \<open>
  Claim C7. The \<^verbatim>\<open>type\<close> of a decoded header is 1 exactly when the bit with mask 0x20 is
  set in the first identifier octet, and 0 otherwise: the octet 0x02 gives a primitive
  header and the octet 0x30 a constructed one.
\<close>

theorem C7_constructed_flag:
  assumes "Header_init (c # rest) = Inr h"
  shows "type h = (if uint c AND 0x20 = 0x20 then 1 else 0)
         \<and> (c = 0x02 \<longrightarrow> type h = 0) \<and> (c = 0x30 \<longrightarrow> type h = 1)"
proof -
  from assms have t: "type h = (if bit c 5 then 1 else 0)"
    by (rule Header_init_type)
  then have "type h = (if uint c AND 0x20 = 0x20 then 1 else 0)"
    by (simp add: and_32_iff)
  then show ?thesis
    by auto
qed

theorem C7_constructed_flag_witness:
  "Header_init [0x30, 0x03, 0x02, 0x01, 0x05] =
     Inr \<lparr>type = 1, number = 16, identifier_octets = 1, octets = 2, length_octets = 1,
          data_length = 3, total_octets = 5, extra_data_length = 0\<rparr>
   \<and> type \<lparr>type = 1, number = 16, identifier_octets = 1, octets = 2, length_octets = 1,
          data_length = 3, total_octets = 5, extra_data_length = 0\<rparr> =
     (if uint (0x30 :: 8 word) AND 0x20 = 0x20 then 1 else 0)
   \<and> uint (0x30 :: 8 word) AND 0x20 = 0x20"
proof -
  have e: "Header_init (0x30 # [0x03, 0x02, 0x01, 0x05]) =
     Inr \<lparr>type = 1, number = 16, identifier_octets = 1, octets = 2, length_octets = 1,
          data_length = 3, total_octets = 5, extra_data_length = 0\<rparr>"
    by (simp add: header_defs)
  from C7_constructed_flag [OF e] e show ?thesis
    by simp
qed

section \<open>The name of the tag type\<close>

text \<open>
  Claim C9. For every decoded tag, \<^verbatim>\<open>get_type\<close> is the name of the header's type,
  followed by \<^verbatim>\<open>-Indefinite\<close> exactly when the header's \<^verbatim>\<open>data_length\<close> is 0. The buffer
  \<^verbatim>\<open>[0x05, 0x00]\<close> has the definite length octet 0x00, not 0x80, and is reported as
  \<^verbatim>\<open>primitive-Indefinite\<close> all the same.
\<close>

theorem C9_get_type_indefinite_suffix:
  assumes "Tag_init None (Some byte_string) load_value' name' = Inr t"
    and "byte_string \<noteq> []"
  shows "(\<exists>h. header t = Some h \<and> Header_init byte_string = Inr h \<and>
            get_type t =
              Inr ((if type h = 0 then ''primitive'' else ''constructed'') @
                   (if data_length h = 0 then ''-Indefinite'' else '''')))
         \<and> Tag_init None (Some [0x05, 0x00]) True None =
             Inr (Tag (Some \<lparr>type = 0, number = 5, identifier_octets = 1, octets = 2,
                              length_octets = 1, data_length = 0, total_octets = 2,
                              extra_data_length = 0\<rparr>)
                    (Text '''') [] True None)
         \<and> get_type (Tag (Some \<lparr>type = 0, number = 5, identifier_octets = 1, octets = 2,
                              length_octets = 1, data_length = 0, total_octets = 2,
                              extra_data_length = 0\<rparr>)
                    (Text '''') [] True None) = Inr ''primitive-Indefinite''"
proof -
  from assms obtain h where h: "Header_init byte_string = Inr h" "header t = Some h"
    using Tag_init_decoded by blast
  from h(1) have "type h = 0 \<or> type h = 1"
    by (rule Header_init_type_cases)
  with h(2) have "get_type t =
      Inr ((if type h = 0 then ''primitive'' else ''constructed'') @
           (if data_length h = 0 then ''-Indefinite'' else ''''))"
    by (auto simp: get_type_def type_name_def getitem_def)
  with h have general: "\<exists>h. header t = Some h \<and> Header_init byte_string = Inr h \<and>
            get_type t =
              Inr ((if type h = 0 then ''primitive'' else ''constructed'') @
                   (if data_length h = 0 then ''-Indefinite'' else ''''))"
    by blast
  have ex1: "Tag_init None (Some [0x05, 0x00]) True None =
             Inr (Tag (Some \<lparr>type = 0, number = 5, identifier_octets = 1, octets = 2,
                              length_octets = 1, data_length = 0, total_octets = 2,
                              extra_data_length = 0\<rparr>)
                    (Text '''') [] True None)"
    by (simp add: header_defs tag_defs)
  have ex2: "get_type (Tag (Some \<lparr>type = 0, number = 5, identifier_octets = 1, octets = 2,
                              length_octets = 1, data_length = 0, total_octets = 2,
                              extra_data_length = 0\<rparr>)
                    (Text '''') [] True None) = Inr ''primitive-Indefinite''"
    by (simp add: get_type_def type_name_def getitem_def)
  from general ex1 ex2 show ?thesis
    by blast
qed

section \<open>Attaching nested tags\<close>

text \<open>
  Claim C10. On a tag whose header is primitive (type 0), \<^verbatim>\<open>add_nested_tag\<close> leaves the
  tag, and so its \<^verbatim>\<open>nested_tags\<close>, as it was: a decoded leaf, whose \<^verbatim>\<open>nested_tags\<close> is
  empty, keeps it empty. On a tag whose header is constructed (type 1) it puts the given
  tag at the end of \<^verbatim>\<open>nested_tags\<close>, after the ones already there, and changes nothing
  else.
\<close>

theorem C10_add_nested_tag:
  "(header t = Some h \<and> type h = 0 \<longrightarrow> add_nested_tag t x = Inr t)
   \<and> (header t = Some h \<and> type h = 1 \<longrightarrow>
        add_nested_tag t x =
          Inr (Tag (header t) (tag_value t) (nested_tags t @ [x]) (load_value t) (name t)))
   \<and> (Tag_init hd' bs lv nm = Inr t \<and> header t = Some h \<and> type h = 0 \<longrightarrow>
        nested_tags t = [] \<and>
        (\<exists>t'. add_nested_tag t x = Inr t' \<and> nested_tags t' = []))"
  by (auto simp: add_nested_tag_def dest: Tag_init_nested_tags)

theorem C9_get_type_indefinite_suffix_witness:
  "Tag_init None (Some [0x30, 0x03, 0x02, 0x01, 0x05]) True None =
     Inr (Tag (Some \<lparr>type = 1, number = 16, identifier_octets = 1, octets = 2,
                      length_octets = 1, data_length = 3, total_octets = 5,
                      extra_data_length = 0\<rparr>)
            (Octets [0x02, 0x01, 0x05]) [] True None)
   \<and> [0x30, 0x03, 0x02, 0x01, 0x05 :: 8 word] \<noteq> []
   \<and> get_type (Tag (Some \<lparr>type = 1, number = 16, identifier_octets = 1, octets = 2,
                      length_octets = 1, data_length = 3, total_octets = 5,
                      extra_data_length = 0\<rparr>)
            (Octets [0x02, 0x01, 0x05]) [] True None) = Inr ''constructed''"
proof -
  have e: "Tag_init None (Some [0x30, 0x03, 0x02, 0x01, 0x05]) True None =
     Inr (Tag (Some \<lparr>type = 1, number = 16, identifier_octets = 1, octets = 2,
                      length_octets = 1, data_length = 3, total_octets = 5,
                      extra_data_length = 0\<rparr>)
            (Octets [0x02, 0x01, 0x05]) [] True None)"
    by (simp add: header_defs tag_defs)
  have ne: "[0x30, 0x03, 0x02, 0x01, 0x05 :: 8 word] \<noteq> []"
    by simp
  from C9_get_type_indefinite_suffix [OF e ne] e show ?thesis
    by auto
qed

theorem C10_add_nested_tag_witness:
  "add_nested_tag
     (Tag (Some \<lparr>type = 0, number = 2, identifier_octets = 1, octets = 2, length_octets = 1,
                  data_length = 1, total_octets = 3, extra_data_length = 0\<rparr>)
        (Text ''05'') [] True None)
     (Tag None NoneValue [] True None) =
     Inr (Tag (Some \<lparr>type = 0, number = 2, identifier_octets = 1, octets = 2,
                      length_octets = 1, data_length = 1, total_octets = 3,
                      extra_data_length = 0\<rparr>)
            (Text ''05'') [] True None)
   \<and> add_nested_tag
     (Tag (Some \<lparr>type = 1, number = 16, identifier_octets = 1, octets = 2, length_octets = 1,
                  data_length = 3, total_octets = 5, extra_data_length = 0\<rparr>)
        (Octets [0x02, 0x01, 0x05]) [Tag None NoneValue [] True (Some ''first'')] True None)
     (Tag None NoneValue [] True (Some ''second'')) =
     Inr (Tag (Some \<lparr>type = 1, number = 16, identifier_octets = 1, octets = 2,
                      length_octets = 1, data_length = 3, total_octets = 5,
                      extra_data_length = 0\<rparr>)
            (Octets [0x02, 0x01, 0x05])
            [Tag None NoneValue [] True (Some ''first''),
             Tag None NoneValue [] True (Some ''second'')] True None)"
  using
    C10_add_nested_tag [where
      t = "Tag (Some \<lparr>type = 0, number = 2, identifier_octets = 1, octets = 2,
                        length_octets = 1, data_length = 1, total_octets = 3,
                        extra_data_length = 0\<rparr>) (Text ''05'') [] True None"
      and h = "\<lparr>type = 0, number = 2, identifier_octets = 1, octets = 2,
                        length_octets = 1, data_length = 1, total_octets = 3,
                        extra_data_length = 0\<rparr>"
      and x = "Tag None NoneValue [] True None"]
    C10_add_nested_tag [where
      t = "Tag (Some \<lparr>type = 1, number = 16, identifier_octets = 1, octets = 2,
                        length_octets = 1, data_length = 3, total_octets = 5,
                        extra_data_length = 0\<rparr>) (Octets [0x02, 0x01, 0x05])
             [Tag None NoneValue [] True (Some ''first'')] True None"
      and h = "\<lparr>type = 1, number = 16, identifier_octets = 1, octets = 2,
                        length_octets = 1, data_length = 3, total_octets = 5,
                        extra_data_length = 0\<rparr>"
      and x = "Tag None NoneValue [] True (Some ''second'')"]
  by simp

end
